theory Spec2Isabelle
  imports Complex_Main
begin

section \<open>NeverYawn: values shared by the modules\<close>

text \<open>
  The device runs four Python modules with module-level (global) variables:
  \<^verbatim>\<open>aktor_steuerung.py\<close> (servo and buzzer), \<^verbatim>\<open>display_steuerung.py\<close> (backlight),
  \<^verbatim>\<open>mqtt_steuerung.py\<close> (broker link) and \<^verbatim>\<open>main.py\<close> (thresholds and the alarm state
  machine). The globals of each module are one record (\<open>aktor_zustand\<close>,
  \<open>display_zustand\<close>, \<open>mqtt_zustand\<close>), and a Python function that mutates the globals of
  its module is a function from that record to that record. The state of the program,
  \<open>zustand\<close>, holds the globals of \<^verbatim>\<open>main.py\<close> and the three module states.
  \<^verbatim>\<open>sensorik.py\<close> has its own record, \<open>sensor_zustand\<close>. What a module does to the
  outside world (PWM writes, display commands, published messages) is appended to a
  list in its record, oldest first.

  Numbers. Python integers are \<open>int\<close>. A Python float is a \<open>gleitzahl\<close>: a finite
  float is taken as the real number it denotes (neither rounding nor the largest finite
  float is modelled), and the three special values of IEEE 754, which \<^verbatim>\<open>ujson.loads\<close>
  can deliver (the literal \<^verbatim>\<open>1e999\<close> parses to infinity), are constructors of their
  own. Time is \<^verbatim>\<open>time.time()\<close>, whole seconds, an \<open>int\<close>.

  Calls into drivers that the code does not guard with a \<^verbatim>\<open>try\<close> of its own are taken
  to return; where the code has a handler, the exception is a branch of the model.
\<close>

datatype gleitzahl = Endlich real | PlusUnendlich | MinusUnendlich | KeineZahl

text \<open>\<^verbatim>\<open>a < b\<close> on floats: every comparison with NaN is false.\<close>

fun gl_kleiner :: "gleitzahl \<Rightarrow> gleitzahl \<Rightarrow> bool" where
  "gl_kleiner KeineZahl _ = False"
| "gl_kleiner _ KeineZahl = False"
| "gl_kleiner (Endlich a) (Endlich b) = (a < b)"
| "gl_kleiner (Endlich a) PlusUnendlich = True"
| "gl_kleiner (Endlich a) MinusUnendlich = False"
| "gl_kleiner PlusUnendlich _ = False"
| "gl_kleiner MinusUnendlich MinusUnendlich = False"
| "gl_kleiner MinusUnendlich _ = True"

text \<open>\<^verbatim>\<open>a <= b\<close> on floats.\<close>

definition gl_kleiner_gleich :: "gleitzahl \<Rightarrow> gleitzahl \<Rightarrow> bool" where
  "gl_kleiner_gleich a b = (a \<noteq> KeineZahl \<and> b \<noteq> KeineZahl \<and> (gl_kleiner a b \<or> a = b))"

text \<open>\<^verbatim>\<open>a > b\<close> and \<^verbatim>\<open>a >= b\<close> on floats.\<close>

definition gl_groesser :: "gleitzahl \<Rightarrow> gleitzahl \<Rightarrow> bool" where
  "gl_groesser a b = gl_kleiner b a"

definition gl_groesser_gleich :: "gleitzahl \<Rightarrow> gleitzahl \<Rightarrow> bool" where
  "gl_groesser_gleich a b = gl_kleiner_gleich b a"

text \<open>
  The exceptions the code distinguishes: \<^verbatim>\<open>except OSError\<close> against
  \<^verbatim>\<open>except Exception\<close>. The other constructors name what the modelled Python
  operations raise themselves.
\<close>

datatype ausnahme = OSError | AttributeError | OverflowError | ValueError | AndereAusnahme

section \<open>aktor\_steuerung.py\<close>

text \<open>
  A \<^verbatim>\<open>machine.PWM\<close> object: its frequency, its duty value, and whether the
  peripheral is broken, in which case every method call on it raises and changes
  nothing. The module variables \<^verbatim>\<open>_servo_pwm_objekt\<close> and
  \<^verbatim>\<open>_summer_pwm_objekt\<close> are \<open>None\<close> until (and unless) initialisation succeeds.
\<close>

record pwm =
  pwm_freq :: int
  pwm_duty :: int
  pwm_defekt :: bool

text \<open>What a PWM output was told to do, in order; \<^verbatim>\<open>time.sleep_ms\<close> between
  two writes is recorded with them.\<close>

datatype pwm_befehl = Freq int | Duty int | Pause_ms int

record aktor_zustand =
  servo_pwm_objekt :: "pwm option"
  summer_pwm_objekt :: "pwm option"
  ist_stummgeschaltet :: bool
  summer_aktuelle_frequenz :: int
  summer_ist_dauerhaft_an :: bool
  summer_protokoll :: "pwm_befehl list"
  servo_protokoll :: "pwm_befehl list"

definition SERVO_DUTY_MIN :: int where "SERVO_DUTY_MIN = 26"
definition SERVO_DUTY_MAX :: int where "SERVO_DUTY_MAX = 128"
definition SERVO_STANDARD_WINKEL :: int where "SERVO_STANDARD_WINKEL = 90"
definition SUMMER_STANDARD_FREQUENZ :: int where "SUMMER_STANDARD_FREQUENZ = 1000"
definition SUMMER_DUTY_AN :: int where "SUMMER_DUTY_AN = 512"
definition SUMMER_DUTY_AUS :: int where "SUMMER_DUTY_AUS = 0"
definition SUMMER_PIEP_DAUER_MS :: int where "SUMMER_PIEP_DAUER_MS = 300"

text \<open>
  \<^verbatim>\<open>_winkel_zu_duty\<close>: the angle is clamped to 0..180, the duty is linear in it,
  and \<^verbatim>\<open>int()\<close> truncates (the value is never negative, so it is the floor).
\<close>

definition winkel_zu_duty :: "int \<Rightarrow> int" where
  "winkel_zu_duty winkel =
     (let w = max 0 (min 180 winkel)
      in \<lfloor>real_of_int SERVO_DUTY_MIN
            + real_of_int (SERVO_DUTY_MAX - SERVO_DUTY_MIN) * (real_of_int w / 180)\<rfloor>)"

text \<open>The \<^verbatim>\<open>for _ in range(wiederholungen)\<close> loop of \<^verbatim>\<open>servo_winken\<close>, as the
  PWM writes it makes.\<close>

fun winke_schleife :: "nat \<Rightarrow> int \<Rightarrow> int \<Rightarrow> int \<Rightarrow> pwm_befehl list" where
  "winke_schleife 0 duty1 duty2 pause_ms = []"
| "winke_schleife (Suc n) duty1 duty2 pause_ms =
     [Duty duty1, Pause_ms pause_ms, Duty duty2, Pause_ms pause_ms]
       @ winke_schleife n duty1 duty2 pause_ms"

definition servo_winken :: "int \<Rightarrow> int \<Rightarrow> int \<Rightarrow> int \<Rightarrow> aktor_zustand \<Rightarrow> aktor_zustand" where
  "servo_winken wiederholungen winkel1 winkel2 pause_ms a =
     (case servo_pwm_objekt a of
        None \<Rightarrow> a
      | Some p \<Rightarrow>
          if pwm_defekt p then a
          else
            let duty1 = winkel_zu_duty winkel1;
                duty2 = winkel_zu_duty winkel2;
                duty_standard = winkel_zu_duty SERVO_STANDARD_WINKEL
            in a\<lparr>servo_pwm_objekt := Some (p\<lparr>pwm_duty := duty_standard\<rparr>),
                 servo_protokoll := servo_protokoll a
                   @ winke_schleife (nat wiederholungen) duty1 duty2 pause_ms
                   @ [Duty duty_standard]\<rparr>)"

definition summer_kurz_piepen ::
  "int \<Rightarrow> int option \<Rightarrow> bool \<Rightarrow> aktor_zustand \<Rightarrow> aktor_zustand" where
  "summer_kurz_piepen dauer_ms frequenz erzwingen a =
     (case summer_pwm_objekt a of
        None \<Rightarrow> a
      | Some p \<Rightarrow>
          if ist_stummgeschaltet a \<and> \<not> erzwingen then a
          else if summer_ist_dauerhaft_an a then a
          else
            let aktuelle_frequenz =
                  (case frequenz of Some f \<Rightarrow> f | None \<Rightarrow> summer_aktuelle_frequenz a)
            in if pwm_defekt p then a
               else a\<lparr>summer_pwm_objekt :=
                        Some (p\<lparr>pwm_freq := aktuelle_frequenz, pwm_duty := SUMMER_DUTY_AUS\<rparr>),
                      summer_protokoll := summer_protokoll a
                        @ [Freq aktuelle_frequenz, Duty SUMMER_DUTY_AN, Pause_ms dauer_ms,
                           Duty SUMMER_DUTY_AUS]\<rparr>)"

definition summer_stoppen :: "aktor_zustand \<Rightarrow> aktor_zustand" where
  "summer_stoppen a =
     (case summer_pwm_objekt a of
        None \<Rightarrow> a
      | Some p \<Rightarrow>
          if pwm_defekt p then a\<lparr>summer_ist_dauerhaft_an := False\<rparr>
          else a\<lparr>summer_pwm_objekt := Some (p\<lparr>pwm_duty := SUMMER_DUTY_AUS\<rparr>),
                 summer_protokoll := summer_protokoll a @ [Duty SUMMER_DUTY_AUS],
                 summer_ist_dauerhaft_an := False\<rparr>)"

definition summer_starten :: "int option \<Rightarrow> bool \<Rightarrow> aktor_zustand \<Rightarrow> aktor_zustand" where
  "summer_starten frequenz erzwingen a =
     (case summer_pwm_objekt a of
        None \<Rightarrow> a
      | Some p \<Rightarrow>
          if ist_stummgeschaltet a \<and> \<not> erzwingen then summer_stoppen a
          else if summer_ist_dauerhaft_an a \<and> \<not> erzwingen then a
          else
            let aktuelle_frequenz =
                  (case frequenz of Some f \<Rightarrow> f | None \<Rightarrow> summer_aktuelle_frequenz a)
            in if pwm_defekt p then a\<lparr>summer_ist_dauerhaft_an := False\<rparr>
               else a\<lparr>summer_pwm_objekt :=
                        Some (p\<lparr>pwm_freq := aktuelle_frequenz, pwm_duty := SUMMER_DUTY_AN\<rparr>),
                      summer_protokoll := summer_protokoll a
                        @ [Freq aktuelle_frequenz, Duty SUMMER_DUTY_AN],
                      summer_ist_dauerhaft_an := True\<rparr>)"

definition stumm_schalten :: "bool \<Rightarrow> aktor_zustand \<Rightarrow> aktor_zustand" where
  "stumm_schalten status a =
     (let a1 = a\<lparr>ist_stummgeschaltet := status\<rparr>
      in if ist_stummgeschaltet a1 then summer_stoppen a1 else a1)"

section \<open>display\_steuerung.py\<close>

text \<open>
  Of the display only the backlight matters to the alarm logic. The drawing itself is
  recorded as one command per call; the driver calls outside a \<^verbatim>\<open>try\<close> are taken
  to succeed.
\<close>

datatype anzeige_befehl =
    BacklightPinAn
  | StatischeElementeZeichnen
  | BacklightTimerStart int
  | WerteZeichnen real real int int

record display_zustand =
  backlight_aktiv :: bool
  anzeige_protokoll :: "anzeige_befehl list"

definition BACKLIGHT_TIMEOUT_MS :: int where "BACKLIGHT_TIMEOUT_MS = 15000"

definition backlight_einschalten :: "display_zustand \<Rightarrow> display_zustand" where
  "backlight_einschalten b =
     (let neu_zeichnen = \<not> backlight_aktiv b;
          b1 = (if neu_zeichnen
                then b\<lparr>backlight_aktiv := True,
                       anzeige_protokoll := anzeige_protokoll b
                         @ [BacklightPinAn, StatischeElementeZeichnen]\<rparr>
                else b)
      in b1\<lparr>anzeige_protokoll := anzeige_protokoll b1
              @ [BacklightTimerStart BACKLIGHT_TIMEOUT_MS]\<rparr>)"

definition backlight_ausschalten_callback :: "display_zustand \<Rightarrow> display_zustand" where
  "backlight_ausschalten_callback b = b\<lparr>backlight_aktiv := False\<rparr>"

definition display_aktualisieren ::
  "real \<Rightarrow> real \<Rightarrow> int \<Rightarrow> int \<Rightarrow> display_zustand \<Rightarrow> display_zustand" where
  "display_aktualisieren t f c v b =
     (if \<not> backlight_aktiv b then b
      else b\<lparr>anzeige_protokoll := anzeige_protokoll b @ [WerteZeichnen t f c v]\<rparr>)"

section \<open>mqtt\_steuerung.py\<close>

text \<open>The payload the tick publishes.\<close>

record sensordaten =
  Temperatur :: real
  Temperatur_Status :: int
  Luftfeuchtigkeit :: real
  Luftfeuchtigkeit_Status :: int
  CO2 :: int
  CO2_Status :: int
  VOC :: int
  VOC_Status :: int

datatype mqtt_klient = MQTTClient

record mqtt_zustand =
  mqtt_client :: "mqtt_klient option"
  mqtt_verbunden :: bool
  mqtt_gesendet :: "(string \<times> sensordaten) list"

definition SENDE_TOPIC :: string where "SENDE_TOPIC = ''IoT-NeverYawn/Sensordaten''"
definition EMPFANGS_TOPIC :: string where "EMPFANGS_TOPIC = ''IoT-NeverYawn/Geraetesteuerung''"

definition mqtt_ist_verbunden :: "mqtt_zustand \<Rightarrow> bool" where
  "mqtt_ist_verbunden q = mqtt_verbunden q"

text \<open>
  \<^verbatim>\<open>mqtt_senden\<close>. The argument \<open>fehler\<close> is the exception that the body of the
  \<^verbatim>\<open>try\<close> (\<^verbatim>\<open>ujson.dumps\<close>, then \<^verbatim>\<open>publish\<close>) raises, if it raises one. The
  result is the returned boolean and the new module state; the function itself raises
  nothing, every exception ends in one of its two handlers.
\<close>

definition mqtt_senden ::
  "ausnahme option \<Rightarrow> sensordaten \<Rightarrow> string \<Rightarrow> mqtt_zustand \<Rightarrow> bool \<times> mqtt_zustand" where
  "mqtt_senden fehler payload topic q =
     (if \<not> mqtt_verbunden q \<or> mqtt_client q = None then (False, q)
      else
        (case fehler of
           None \<Rightarrow> (True, q\<lparr>mqtt_gesendet := mqtt_gesendet q @ [(topic, payload)]\<rparr>)
         | Some OSError \<Rightarrow> (False, q\<lparr>mqtt_verbunden := False, mqtt_client := None\<rparr>)
         | Some _ \<Rightarrow> (False, q)))"

text \<open>
  \<^verbatim>\<open>mqtt_nachrichten_pruefen\<close>. \<open>fehler\<close> is the exception \<^verbatim>\<open>check_msg\<close> raises,
  if any. When it raises none, a waiting message has been handed to the callback,
  \<^verbatim>\<open>mqtt_befehl_empfangen\<close> of main.py, which works on the state of main.py and is
  modelled below. The function returns nothing and raises nothing.
\<close>

definition mqtt_nachrichten_pruefen :: "ausnahme option \<Rightarrow> mqtt_zustand \<Rightarrow> mqtt_zustand" where
  "mqtt_nachrichten_pruefen fehler q =
     (if \<not> mqtt_verbunden q \<or> mqtt_client q = None then q
      else
        (case fehler of
           None \<Rightarrow> q
         | Some OSError \<Rightarrow> q\<lparr>mqtt_verbunden := False, mqtt_client := None\<rparr>
         | Some _ \<Rightarrow> q))"

section \<open>main.py: the globals\<close>

text \<open>\<open>bildschirm\<close> is the display object, always present (and truthy) once the
  program runs.\<close>

record zustand =
  letzte_sensorlesung_zeit :: int
  kritischer_alarm_aktiv :: bool
  normal_alarm_sperre_bis :: int
  normal_alarm_zaehler :: int
  aktuelle_temp_schwelle :: gleitzahl
  aktuelle_feuchte_schwelle :: gleitzahl
  aktuelle_co2_schwelle :: int
  aktuelle_voc_schwelle :: int
  aktuelle_co2_kritisch_schwelle :: int
  aktor :: aktor_zustand
  bildschirm :: display_zustand
  mqtt :: mqtt_zustand

section \<open>main.py: the MQTT callback\<close>

text \<open>
  What \<^verbatim>\<open>ujson.loads\<close> returns. A JSON object is a Python dict, here the map from
  its keys to their values.
\<close>

datatype json =
    JNull
  | JBool bool
  | JInt int
  | JFloat gleitzahl
  | JString string
  | JList "json list"
  | JDict "string \<Rightarrow> json option"

text \<open>\<^verbatim>\<open>daten.get(key)\<close>: \<^verbatim>\<open>None\<close> for a missing key; only a dict has the
  method.\<close>

fun dict_get :: "json \<Rightarrow> string \<Rightarrow> ausnahme + json" where
  "dict_get (JDict d) key = Inr (case d key of None \<Rightarrow> JNull | Some v \<Rightarrow> v)"
| "dict_get _ key = Inl AttributeError"

text \<open>
  \<^verbatim>\<open>isinstance(x, (int, float))\<close>, with the number's value when it holds: a float is
  itself, an integer the real number it is, and \<^verbatim>\<open>bool\<close> is a subclass of
  \<^verbatim>\<open>int\<close> in Python. \<^verbatim>\<open>float(x)\<close> of such a number is this value.
\<close>

fun als_zahl :: "json \<Rightarrow> gleitzahl option" where
  "als_zahl (JInt i) = Some (Endlich (real_of_int i))"
| "als_zahl (JFloat f) = Some f"
| "als_zahl (JBool b) = Some (Endlich (if b then 1 else 0))"
| "als_zahl _ = None"

text \<open>\<^verbatim>\<open>int(x)\<close> of a number: truncation towards zero; infinity and NaN raise.\<close>

fun py_int :: "gleitzahl \<Rightarrow> ausnahme + int" where
  "py_int (Endlich r) = Inr (if 0 \<le> r then \<lfloor>r\<rfloor> else \<lceil>r\<rceil>)"
| "py_int PlusUnendlich = Inl OverflowError"
| "py_int MinusUnendlich = Inl OverflowError"
| "py_int KeineZahl = Inl ValueError"

text \<open>
  A \<^verbatim>\<open>try\<close> block whose handler only prints: the statements run in order, and the
  first one that raises ends the block with the assignments made so far.
\<close>

fun versuche :: "(zustand \<Rightarrow> ausnahme + zustand) list \<Rightarrow> zustand \<Rightarrow> zustand" where
  "versuche [] s = s"
| "versuche (f # fs) s = (case f s of Inl e \<Rightarrow> s | Inr s' \<Rightarrow> versuche fs s')"

text \<open>The four stanzas of the threshold update (main.py, lines 99 to 116).\<close>

definition temp_schwelle_setzen :: "json \<Rightarrow> zustand \<Rightarrow> ausnahme + zustand" where
  "temp_schwelle_setzen daten s =
     (case dict_get daten ''schwelle_temp'' of
        Inl e \<Rightarrow> Inl e
      | Inr neue_temp \<Rightarrow>
          (case als_zahl neue_temp of
             Some x \<Rightarrow> Inr (s\<lparr>aktuelle_temp_schwelle := x\<rparr>)
           | None \<Rightarrow> Inr s))"

definition feuchte_schwelle_setzen :: "json \<Rightarrow> zustand \<Rightarrow> ausnahme + zustand" where
  "feuchte_schwelle_setzen daten s =
     (case dict_get daten ''schwelle_hum'' of
        Inl e \<Rightarrow> Inl e
      | Inr neue_feuchte \<Rightarrow>
          (case als_zahl neue_feuchte of
             Some x \<Rightarrow>
               if gl_kleiner_gleich (Endlich 0) x \<and> gl_kleiner_gleich x (Endlich 100)
               then Inr (s\<lparr>aktuelle_feuchte_schwelle := x\<rparr>)
               else Inr s
           | None \<Rightarrow> Inr s))"

definition co2_schwelle_setzen :: "json \<Rightarrow> zustand \<Rightarrow> ausnahme + zustand" where
  "co2_schwelle_setzen daten s =
     (case dict_get daten ''schwelle_CO2'' of
        Inl e \<Rightarrow> Inl e
      | Inr neue_co2 \<Rightarrow>
          (case als_zahl neue_co2 of
             Some x \<Rightarrow>
               if gl_groesser x (Endlich 0)
               then (case py_int x of
                       Inl e \<Rightarrow> Inl e
                     | Inr i \<Rightarrow> Inr (s\<lparr>aktuelle_co2_schwelle := i\<rparr>))
               else Inr s
           | None \<Rightarrow> Inr s))"

definition voc_schwelle_setzen :: "json \<Rightarrow> zustand \<Rightarrow> ausnahme + zustand" where
  "voc_schwelle_setzen daten s =
     (case dict_get daten ''schwelle_VOC'' of
        Inl e \<Rightarrow> Inl e
      | Inr neue_voc \<Rightarrow>
          (case als_zahl neue_voc of
             Some x \<Rightarrow>
               if gl_groesser_gleich x (Endlich 0)
               then (case py_int x of
                       Inl e \<Rightarrow> Inl e
                     | Inr i \<Rightarrow> Inr (s\<lparr>aktuelle_voc_schwelle := i\<rparr>))
               else Inr s
           | None \<Rightarrow> Inr s))"

definition MQTT_SCHWELLE_TOPIC :: string where
  "MQTT_SCHWELLE_TOPIC = ''IoT-NeverYawn/Schwellwerte''"

text \<open>
  \<^verbatim>\<open>mqtt_befehl_empfangen\<close>. \<open>topic_bytes\<close> is the decoded topic (\<open>None\<close> when
  \<^verbatim>\<open>decode\<close> raises) and \<open>msg_bytes\<close> the parsed message (\<open>None\<close> when
  \<^verbatim>\<open>ujson.loads\<close> raises). Every exception ends in a handler that prints.
\<close>

definition mqtt_befehl_empfangen :: "string option \<Rightarrow> json option \<Rightarrow> zustand \<Rightarrow> zustand" where
  "mqtt_befehl_empfangen topic_bytes msg_bytes s =
     (case topic_bytes of
        None \<Rightarrow> s
      | Some topic \<Rightarrow>
          if topic = MQTT_SCHWELLE_TOPIC then
            (case msg_bytes of
               None \<Rightarrow> s
             | Some daten \<Rightarrow>
                 versuche [temp_schwelle_setzen daten, feuchte_schwelle_setzen daten,
                           co2_schwelle_setzen daten, voc_schwelle_setzen daten] s)
          else if topic = EMPFANGS_TOPIC then
            (case msg_bytes of
               None \<Rightarrow> s
             | Some daten \<Rightarrow>
                 (case (dict_get daten ''command'', dict_get daten ''status'',
                        dict_get daten ''action'') of
                    (Inr befehl, Inr status, Inr aktion) \<Rightarrow>
                      if befehl = JString ''MUTE'' then
                        (let mute_aktiv = (status = JString ''ON'');
                             s1 = s\<lparr>aktor := stumm_schalten mute_aktiv (aktor s)\<rparr>
                         in if mute_aktiv then s1\<lparr>kritischer_alarm_aktiv := False\<rparr> else s1)
                      else if befehl = JString ''FLAG'' \<and> aktion = JString ''WAVE'' then
                        s\<lparr>aktor := servo_winken 3 45 135 400 (aktor s)\<rparr>
                      else if befehl = JString ''BUZZER'' then
                        (if status = JString ''ON''
                         then s\<lparr>aktor := summer_starten None False (aktor s)\<rparr>
                         else if status = JString ''OFF'' then
                           s\<lparr>aktor := summer_stoppen (aktor s),
                             kritischer_alarm_aktiv := False\<rparr>
                         else s)
                      else s
                  | _ \<Rightarrow> s))
          else s)"

section \<open>main.py: the periodic tick\<close>

text \<open>The four values the \<^verbatim>\<open>sensorik.lese_*\<close> calls returned on a tick.\<close>

record messung =
  temp :: real
  feuchte :: real
  co2 :: int
  voc :: int

definition NORMAL_ALARM_SPERRE_SEK :: int where "NORMAL_ALARM_SPERRE_SEK = 300"
definition NORMAL_ALARM_AUSLOESE_ZAEHLER :: int where "NORMAL_ALARM_AUSLOESE_ZAEHLER = 2"

text \<open>The locals of the tick that the alarm logic branches on (main.py, lines 205 to 218).\<close>

definition ungueltig :: "messung \<Rightarrow> bool" where
  "ungueltig m = (temp m = - (999 / 10) \<or> feuchte m = - 1)"

definition ist_temp_alarm :: "messung \<Rightarrow> zustand \<Rightarrow> bool" where
  "ist_temp_alarm m s = gl_groesser (Endlich (temp m)) (aktuelle_temp_schwelle s)"

definition ist_feuchte_alarm :: "messung \<Rightarrow> zustand \<Rightarrow> bool" where
  "ist_feuchte_alarm m s = gl_groesser (Endlich (feuchte m)) (aktuelle_feuchte_schwelle s)"

definition ist_co2_alarm :: "messung \<Rightarrow> zustand \<Rightarrow> bool" where
  "ist_co2_alarm m s = (co2 m > aktuelle_co2_schwelle s)"

definition ist_voc_alarm :: "messung \<Rightarrow> zustand \<Rightarrow> bool" where
  "ist_voc_alarm m s = (voc m > aktuelle_voc_schwelle s)"

definition ist_co2_kritisch :: "messung \<Rightarrow> zustand \<Rightarrow> bool" where
  "ist_co2_kritisch m s = (co2 m > aktuelle_co2_kritisch_schwelle s)"

definition soll_normal_alarm :: "messung \<Rightarrow> zustand \<Rightarrow> bool" where
  "soll_normal_alarm m s =
     (ist_temp_alarm m s \<or> ist_feuchte_alarm m s \<or> ist_co2_alarm m s \<or> ist_voc_alarm m s)"

text \<open>The payload of lines 269 to 278.\<close>

definition daten_paket :: "messung \<Rightarrow> zustand \<Rightarrow> sensordaten" where
  "daten_paket m s =
     \<lparr>Temperatur = temp m,
      Temperatur_Status = (if ist_temp_alarm m s then 1 else 0),
      Luftfeuchtigkeit = feuchte m,
      Luftfeuchtigkeit_Status = (if ist_feuchte_alarm m s then 1 else 0),
      CO2 = co2 m,
      CO2_Status = (if ist_co2_kritisch m s then 2 else if ist_co2_alarm m s then 1 else 0),
      VOC = voc m,
      VOC_Status = (if ist_voc_alarm m s then 1 else 0)\<rparr>"

text \<open>"1. Kritischer CO2-Alarm" (lines 233 to 249).\<close>

definition kritischer_alarm_logik :: "int \<Rightarrow> messung \<Rightarrow> zustand \<Rightarrow> zustand" where
  "kritischer_alarm_logik aktuelle_zeit m s =
     (if ist_co2_kritisch m s then
        (let s1 = s\<lparr>aktor := summer_starten None True (aktor s)\<rparr>
         in if \<not> kritischer_alarm_aktiv s1
            then s1\<lparr>kritischer_alarm_aktiv := True,
                    normal_alarm_zaehler := 0,
                    normal_alarm_sperre_bis := 0,
                    bildschirm := backlight_einschalten (bildschirm s1)\<rparr>
            else s1)
      else if kritischer_alarm_aktiv s then
        (let s1 = s\<lparr>aktor := summer_stoppen (aktor s), kritischer_alarm_aktiv := False\<rparr>
         in if soll_normal_alarm m s
            then s1\<lparr>normal_alarm_sperre_bis := aktuelle_zeit + NORMAL_ALARM_SPERRE_SEK,
                    normal_alarm_zaehler := 0\<rparr>
            else s1)
      else s)"

text \<open>"2. Normaler Alarm" (lines 252 to 265).\<close>

definition normaler_alarm_logik :: "int \<Rightarrow> messung \<Rightarrow> zustand \<Rightarrow> zustand" where
  "normaler_alarm_logik aktuelle_zeit m s =
     (if \<not> kritischer_alarm_aktiv s then
        (if soll_normal_alarm m s then
           (let s1 = s\<lparr>normal_alarm_zaehler := normal_alarm_zaehler s + 1\<rparr>
            in if normal_alarm_zaehler s1 \<ge> NORMAL_ALARM_AUSLOESE_ZAEHLER
                  \<and> aktuelle_zeit > normal_alarm_sperre_bis s1
               then s1\<lparr>aktor := servo_winken 3 45 135 400
                                   (summer_kurz_piepen SUMMER_PIEP_DAUER_MS None False (aktor s1)),
                       bildschirm := backlight_einschalten (bildschirm s1),
                       normal_alarm_sperre_bis := aktuelle_zeit + NORMAL_ALARM_SPERRE_SEK,
                       normal_alarm_zaehler := 0\<rparr>
               else s1)
         else
           (let s1 = (if normal_alarm_zaehler s > 0 then s\<lparr>normal_alarm_zaehler := 0\<rparr> else s)
            in if normal_alarm_sperre_bis s1 > 0 then s1\<lparr>normal_alarm_sperre_bis := 0\<rparr>
               else s1))
      else s)"

text \<open>
  \<^verbatim>\<open>sensoren_lesen_verarbeiten_senden\<close>: one tick at time \<open>aktuelle_zeit\<close> with the
  values \<open>m\<close> read from the sensors; \<open>sende_fehler\<close> is the exception the broker link
  raises when the tick publishes, if any. The thresholds do not change during a tick, so
  the alarm flags computed at its start are those of the state at any point of it.
\<close>

definition sensoren_lesen_verarbeiten_senden ::
  "int \<Rightarrow> messung \<Rightarrow> ausnahme option \<Rightarrow> zustand \<Rightarrow> zustand" where
  "sensoren_lesen_verarbeiten_senden aktuelle_zeit m sende_fehler s =
     (let s0 = s\<lparr>letzte_sensorlesung_zeit := aktuelle_zeit\<rparr>
      in if ungueltig m then s0
         else
           (let s1 = s0\<lparr>bildschirm := display_aktualisieren (temp m) (feuchte m) (co2 m) (voc m)
                                      (bildschirm s0)\<rparr>;
                s2 = kritischer_alarm_logik aktuelle_zeit m s1;
                s3 = normaler_alarm_logik aktuelle_zeit m s2
            in if mqtt_ist_verbunden (mqtt s3)
               then s3\<lparr>mqtt := snd (mqtt_senden sende_fehler (daten_paket m s3) SENDE_TOPIC
                                      (mqtt s3))\<rparr>
               else s3))"

text \<open>A run of ticks, each with its time, its reading and its publish outcome.\<close>

fun ticks :: "(int \<times> messung \<times> ausnahme option) list \<Rightarrow> zustand \<Rightarrow> zustand" where
  "ticks [] s = s"
| "ticks ((zeit, m, f) # rest) s = ticks rest (sensoren_lesen_verarbeiten_senden zeit m f s)"

section \<open>sensorik.py: the CCS811 cache\<close>

record sensor_zustand =
  sensor_ccs_vorhanden :: bool
  letzter_co2_wert :: int
  letzter_voc_wert :: int

text \<open>
  What the CCS811 driver does when \<^verbatim>\<open>_aktualisiere_ccs_daten\<close> asks it: it raises,
  or it has no new data, or it delivers \<^verbatim>\<open>eCO2\<close> and \<^verbatim>\<open>tVOC\<close>.
\<close>

datatype ccs_antwort = CcsFehler | CcsNichtBereit | CcsDaten int int

definition aktualisiere_ccs_daten :: "ccs_antwort \<Rightarrow> sensor_zustand \<Rightarrow> sensor_zustand" where
  "aktualisiere_ccs_daten antwort z =
     (if sensor_ccs_vorhanden z then
        (case antwort of
           CcsFehler \<Rightarrow> z
         | CcsNichtBereit \<Rightarrow> z
         | CcsDaten neuer_co2 neuer_voc \<Rightarrow>
             if 400 \<le> neuer_co2 \<and> neuer_co2 \<le> 8000 \<and> 0 \<le> neuer_voc
             then z\<lparr>letzter_co2_wert := neuer_co2, letzter_voc_wert := neuer_voc\<rparr>
             else z)
      else z)"

definition lese_co2 :: "ccs_antwort \<Rightarrow> sensor_zustand \<Rightarrow> int \<times> sensor_zustand" where
  "lese_co2 antwort z =
     (let z' = aktualisiere_ccs_daten antwort z in (letzter_co2_wert z', z'))"

definition lese_voc :: "sensor_zustand \<Rightarrow> int" where
  "lese_voc z = letzter_voc_wert z"

text \<open>The module variables after import (sensorik.py, lines 43 and 44).\<close>

definition sensor_start :: "bool \<Rightarrow> sensor_zustand" where
  "sensor_start vorhanden =
     \<lparr>sensor_ccs_vorhanden = vorhanden, letzter_co2_wert = 400, letzter_voc_wert = 0\<rparr>"

text \<open>Successive ticks' \<^verbatim>\<open>lese_co2\<close> calls, one driver answer each.\<close>

fun lese_folge :: "ccs_antwort list \<Rightarrow> sensor_zustand \<Rightarrow> sensor_zustand" where
  "lese_folge [] z = z"
| "lese_folge (a # as) z = lese_folge as (snd (lese_co2 a z))"

section \<open>States and readings the theorems speak about\<close>



text \<open>
  The globals once all modules are imported and \<^verbatim>\<open>aktoren_initialisieren(21, 47)\<close>
  and the display's \<^verbatim>\<open>setup\<close> have succeeded, before the broker is connected.
\<close>

definition anfangszustand :: zustand where
  "anfangszustand =
     \<lparr>letzte_sensorlesung_zeit = 0,
      kritischer_alarm_aktiv = False,
      normal_alarm_sperre_bis = 0,
      normal_alarm_zaehler = 0,
      aktuelle_temp_schwelle = Endlich 30,
      aktuelle_feuchte_schwelle = Endlich 60,
      aktuelle_co2_schwelle = 1500,
      aktuelle_voc_schwelle = 1000,
      aktuelle_co2_kritisch_schwelle = 2500,
      aktor =
        \<lparr>servo_pwm_objekt = Some \<lparr>pwm_freq = 50, pwm_duty = 77, pwm_defekt = False\<rparr>,
         summer_pwm_objekt = Some \<lparr>pwm_freq = 1000, pwm_duty = 0, pwm_defekt = False\<rparr>,
         ist_stummgeschaltet = False,
         summer_aktuelle_frequenz = 1000,
         summer_ist_dauerhaft_an = False,
         summer_protokoll = [],
         servo_protokoll = []\<rparr>,
      bildschirm = \<lparr>backlight_aktiv = False, anzeige_protokoll = []\<rparr>,
      mqtt = \<lparr>mqtt_client = None, mqtt_verbunden = False, mqtt_gesendet = []\<rparr>\<rparr>"

text \<open>The same, with the broker connected.\<close>

definition verbundener_zustand :: zustand where
  "verbundener_zustand =
     anfangszustand\<lparr>mqtt := \<lparr>mqtt_client = Some MQTTClient, mqtt_verbunden = True,
                               mqtt_gesendet = []\<rparr>\<rparr>"

text \<open>A reading strictly below every threshold of the state, the critical one included.\<close>

definition unter_allen_schwellen :: "messung \<Rightarrow> zustand \<Rightarrow> bool" where
  "unter_allen_schwellen m s =
     (gl_kleiner (Endlich (temp m)) (aktuelle_temp_schwelle s)
      \<and> gl_kleiner (Endlich (feuchte m)) (aktuelle_feuchte_schwelle s)
      \<and> co2 m < aktuelle_co2_schwelle s
      \<and> voc m < aktuelle_voc_schwelle s
      \<and> co2 m < aktuelle_co2_kritisch_schwelle s)"

text \<open>The PWM writes of one short beep and of one wave of three swings.\<close>

definition piep_befehle :: "int \<Rightarrow> pwm_befehl list" where
  "piep_befehle f = [Freq f, Duty 512, Pause_ms 300, Duty 0]"

definition wink_befehle :: "pwm_befehl list" where
  "wink_befehle =
     [Duty 51, Pause_ms 400, Duty 102, Pause_ms 400,
      Duty 51, Pause_ms 400, Duty 102, Pause_ms 400,
      Duty 51, Pause_ms 400, Duty 102, Pause_ms 400,
      Duty 77]"

text \<open>Readings: all quiet; warm (the scenario of the specification); CO2 raised but not
  critical; CO2 critical.\<close>

definition messung_ruhig :: messung where
  "messung_ruhig = \<lparr>temp = 22, feuchte = 45, co2 = 800, voc = 100\<rparr>"

definition messung_warm :: messung where
  "messung_warm = \<lparr>temp = 31, feuchte = 50, co2 = 1000, voc = 100\<rparr>"

definition messung_erhoeht :: messung where
  "messung_erhoeht = \<lparr>temp = 22, feuchte = 45, co2 = 2000, voc = 100\<rparr>"

definition messung_kritisch :: messung where
  "messung_kritisch = \<lparr>temp = 22, feuchte = 45, co2 = 3000, voc = 100\<rparr>"

text \<open>The start state muted, and the start state with the critical alarm sounding.\<close>

definition stummer_zustand :: zustand where
  "stummer_zustand = anfangszustand\<lparr>aktor := (aktor anfangszustand)\<lparr>ist_stummgeschaltet := True\<rparr>\<rparr>"

definition alarm_zustand :: zustand where
  "alarm_zustand =
     anfangszustand\<lparr>kritischer_alarm_aktiv := True,
                     aktor := (aktor anfangszustand)
                       \<lparr>summer_pwm_objekt :=
                          Some \<lparr>pwm_freq = 1000, pwm_duty = 512, pwm_defekt = False\<rparr>,
                        summer_ist_dauerhaft_an := True\<rparr>\<rparr>"

section \<open>The CO2 and VOC channels never leave their range\<close>

lemma ccs_bereich_erhalten:
  "400 \<le> letzter_co2_wert z \<and> letzter_co2_wert z \<le> 8000 \<and> 0 \<le> letzter_voc_wert z \<Longrightarrow>
   400 \<le> letzter_co2_wert (aktualisiere_ccs_daten a z)
   \<and> letzter_co2_wert (aktualisiere_ccs_daten a z) \<le> 8000
   \<and> 0 \<le> letzter_voc_wert (aktualisiere_ccs_daten a z)"
  by (cases a) (auto simp: aktualisiere_ccs_daten_def)

lemma lese_folge_bereich:
  "400 \<le> letzter_co2_wert z \<and> letzter_co2_wert z \<le> 8000 \<and> 0 \<le> letzter_voc_wert z \<Longrightarrow>
   400 \<le> letzter_co2_wert (lese_folge as z)
   \<and> letzter_co2_wert (lese_folge as z) \<le> 8000
   \<and> 0 \<le> letzter_voc_wert (lese_folge as z)"
proof (induction as arbitrary: z)
  case Nil
  then show ?case by simp
next
  case (Cons a as)
  have "snd (lese_co2 a z) = aktualisiere_ccs_daten a z"
    by (simp add: lese_co2_def Let_def)
  with Cons.prems ccs_bereich_erhalten [of z a] Cons.IH [of "aktualisiere_ccs_daten a z"]
  show ?case by simp
qed

text \<open>
  Claim C10. After any history of driver answers since import, \<^verbatim>\<open>lese_co2\<close> returns
  an integer between 400 and 8000 and \<^verbatim>\<open>lese_voc\<close> one that is at least 0. A sample
  out of range leaves the cache as it was, and the cache changes only by a sample in
  range, which it then holds.
\<close>

theorem lese_co2_immer_im_bereich:
  "(let z = lese_folge antworten (sensor_start vorhanden);
        z' = snd (lese_co2 antwort z)
    in 400 \<le> fst (lese_co2 antwort z) \<and> fst (lese_co2 antwort z) \<le> 8000
       \<and> 0 \<le> lese_voc z'
       \<and> (antwort = CcsDaten c v \<and> \<not> (400 \<le> c \<and> c \<le> 8000 \<and> 0 \<le> v) \<longrightarrow> z' = z)
       \<and> (z' \<noteq> z \<longrightarrow> (\<exists>c v. antwort = CcsDaten c v \<and> 400 \<le> c \<and> c \<le> 8000 \<and> 0 \<le> v
                              \<and> letzter_co2_wert z' = c \<and> letzter_voc_wert z' = v)))"
proof -
  define z where "z = lese_folge antworten (sensor_start vorhanden)"
  have start: "400 \<le> letzter_co2_wert (sensor_start vorhanden)
      \<and> letzter_co2_wert (sensor_start vorhanden) \<le> 8000
      \<and> 0 \<le> letzter_voc_wert (sensor_start vorhanden)"
    by (simp add: sensor_start_def)
  have inv: "400 \<le> letzter_co2_wert z \<and> letzter_co2_wert z \<le> 8000 \<and> 0 \<le> letzter_voc_wert z"
    unfolding z_def by (rule lese_folge_bereich [OF start])
  have nach: "400 \<le> letzter_co2_wert (aktualisiere_ccs_daten antwort z)
      \<and> letzter_co2_wert (aktualisiere_ccs_daten antwort z) \<le> 8000
      \<and> 0 \<le> letzter_voc_wert (aktualisiere_ccs_daten antwort z)"
    by (rule ccs_bereich_erhalten [OF inv])
  have unveraendert: "antwort = CcsDaten c v \<and> \<not> (400 \<le> c \<and> c \<le> 8000 \<and> 0 \<le> v)
      \<longrightarrow> aktualisiere_ccs_daten antwort z = z"
    by (auto simp: aktualisiere_ccs_daten_def)
  have nur_gueltig: "aktualisiere_ccs_daten antwort z \<noteq> z \<longrightarrow>
      (\<exists>c v. antwort = CcsDaten c v \<and> 400 \<le> c \<and> c \<le> 8000 \<and> 0 \<le> v
         \<and> letzter_co2_wert (aktualisiere_ccs_daten antwort z) = c
         \<and> letzter_voc_wert (aktualisiere_ccs_daten antwort z) = v)"
    by (cases antwort) (auto simp: aktualisiere_ccs_daten_def)
  from nach unveraendert nur_gueltig show ?thesis
    unfolding Let_def z_def [symmetric] by (simp add: lese_co2_def lese_voc_def Let_def)
qed

theorem lese_co2_immer_im_bereich_witness:
  "fst (lese_co2 (CcsDaten 300 7)
         (lese_folge [CcsDaten 1200 50, CcsDaten 9000 3] (sensor_start True))) = 1200
   \<and> lese_voc (snd (lese_co2 (CcsDaten 300 7)
         (lese_folge [CcsDaten 1200 50, CcsDaten 9000 3] (sensor_start True)))) = 50
   \<and> snd (lese_co2 (CcsDaten 300 7)
         (lese_folge [CcsDaten 1200 50, CcsDaten 9000 3] (sensor_start True)))
       = lese_folge [CcsDaten 1200 50, CcsDaten 9000 3] (sensor_start True)
   \<and> snd (lese_co2 (CcsDaten 1200 50) (sensor_start True)) \<noteq> sensor_start True"
  using lese_co2_immer_im_bereich [of "[CcsDaten 1200 50, CcsDaten 9000 3]" True "CcsDaten 300 7" 300 7]
        lese_co2_immer_im_bereich [of "[]" True "CcsDaten 1200 50" 1200 50]
  by (simp add: lese_co2_def lese_voc_def aktualisiere_ccs_daten_def sensor_start_def Let_def)

section \<open>Helper facts about the actuators and the stages of a tick\<close>

lemmas flag_defs = ist_temp_alarm_def ist_feuchte_alarm_def ist_co2_alarm_def ist_voc_alarm_def
  ist_co2_kritisch_def soll_normal_alarm_def
lemmas konst_defs = SUMMER_DUTY_AN_def SUMMER_DUTY_AUS_def SUMMER_PIEP_DAUER_MS_def
  NORMAL_ALARM_SPERRE_SEK_def NORMAL_ALARM_AUSLOESE_ZAEHLER_def BACKLIGHT_TIMEOUT_MS_def

lemma winkel_zu_duty_werte:
  "winkel_zu_duty 45 = 51" "winkel_zu_duty 135 = 102" "winkel_zu_duty SERVO_STANDARD_WINKEL = 77"
  by (simp_all add: winkel_zu_duty_def SERVO_DUTY_MIN_def SERVO_DUTY_MAX_def SERVO_STANDARD_WINKEL_def)

lemma winke_schleife_3: "winke_schleife (nat 3) 51 102 400 @ [Duty 77] = wink_befehle"
  by (simp add: wink_befehle_def eval_nat_numeral)

subsection \<open>What each actuator call does when the actuator is ready\<close>

lemma summer_starten_erzwungen:
  assumes "summer_pwm_objekt a = Some p" "\<not> pwm_defekt p"
  shows "summer_starten None True a =
           a\<lparr>summer_pwm_objekt := Some (p\<lparr>pwm_freq := summer_aktuelle_frequenz a, pwm_duty := 512\<rparr>),
             summer_protokoll := summer_protokoll a @ [Freq (summer_aktuelle_frequenz a), Duty 512],
             summer_ist_dauerhaft_an := True\<rparr>"
  using assms by (simp add: summer_starten_def SUMMER_DUTY_AN_def Let_def)

lemma summer_stoppen_bereit:
  assumes "summer_pwm_objekt a = Some p" "\<not> pwm_defekt p"
  shows "summer_stoppen a =
           a\<lparr>summer_pwm_objekt := Some (p\<lparr>pwm_duty := 0\<rparr>),
             summer_protokoll := summer_protokoll a @ [Duty 0],
             summer_ist_dauerhaft_an := False\<rparr>"
  using assms by (simp add: summer_stoppen_def SUMMER_DUTY_AUS_def)

lemma summer_kurz_piepen_stumm:
  "ist_stummgeschaltet a \<Longrightarrow> summer_kurz_piepen dauer frequenz False a = a"
  by (simp add: summer_kurz_piepen_def split: option.splits)

lemma summer_kurz_piepen_servo [simp]:
  "servo_pwm_objekt (summer_kurz_piepen d fr e a) = servo_pwm_objekt a"
  "servo_protokoll (summer_kurz_piepen d fr e a) = servo_protokoll a"
  "ist_stummgeschaltet (summer_kurz_piepen d fr e a) = ist_stummgeschaltet a"
  "summer_ist_dauerhaft_an (summer_kurz_piepen d fr e a) = summer_ist_dauerhaft_an a"
  "summer_aktuelle_frequenz (summer_kurz_piepen d fr e a) = summer_aktuelle_frequenz a"
  by (simp_all add: summer_kurz_piepen_def Let_def split: option.splits)

lemma summer_kurz_piepen_laut:
  assumes "summer_pwm_objekt a = Some p" "\<not> pwm_defekt p"
    "\<not> ist_stummgeschaltet a" "\<not> summer_ist_dauerhaft_an a"
  shows "summer_kurz_piepen 300 None False a =
           a\<lparr>summer_pwm_objekt := Some (p\<lparr>pwm_freq := summer_aktuelle_frequenz a, pwm_duty := 0\<rparr>),
             summer_protokoll := summer_protokoll a @ piep_befehle (summer_aktuelle_frequenz a)\<rparr>"
  using assms by (simp add: summer_kurz_piepen_def piep_befehle_def konst_defs Let_def)

lemma servo_winken_bereit:
  assumes "servo_pwm_objekt a = Some q" "\<not> pwm_defekt q"
  shows "servo_winken 3 45 135 400 a =
           a\<lparr>servo_pwm_objekt := Some (q\<lparr>pwm_duty := 77\<rparr>),
             servo_protokoll := servo_protokoll a @ wink_befehle\<rparr>"
  using assms winke_schleife_3 by (simp add: servo_winken_def winkel_zu_duty_werte Let_def)

subsection \<open>The stages of a tick\<close>

lemma tick_gueltig:
  fixes zeit :: int and m :: messung and s :: zustand
  assumes "\<not> ungueltig m"
  defines "s3 \<equiv> normaler_alarm_logik zeit m (kritischer_alarm_logik zeit m
      (s\<lparr>letzte_sensorlesung_zeit := zeit,
         bildschirm := display_aktualisieren (temp m) (feuchte m) (co2 m) (voc m) (bildschirm s)\<rparr>))"
  shows "sensoren_lesen_verarbeiten_senden zeit m f s =
           (if mqtt_verbunden (mqtt s3)
            then s3\<lparr>mqtt := snd (mqtt_senden f (daten_paket m s3) SENDE_TOPIC (mqtt s3))\<rparr>
            else s3)"
  using assms(1) unfolding s3_def
  by (simp add: sensoren_lesen_verarbeiten_senden_def Let_def mqtt_ist_verbunden_def)

lemma kritisch_an:
  assumes "ist_co2_kritisch m s"
  shows "kritischer_alarm_logik zeit m s =
           (if kritischer_alarm_aktiv s
            then s\<lparr>aktor := summer_starten None True (aktor s)\<rparr>
            else s\<lparr>aktor := summer_starten None True (aktor s),
                   kritischer_alarm_aktiv := True,
                   normal_alarm_zaehler := 0,
                   normal_alarm_sperre_bis := 0,
                   bildschirm := backlight_einschalten (bildschirm s)\<rparr>)"
  using assms by (simp add: kritischer_alarm_logik_def Let_def)

lemma kritisch_aus:
  assumes "\<not> ist_co2_kritisch m s" "kritischer_alarm_aktiv s"
  shows "kritischer_alarm_logik zeit m s =
           (if soll_normal_alarm m s
            then s\<lparr>aktor := summer_stoppen (aktor s),
                   kritischer_alarm_aktiv := False,
                   normal_alarm_sperre_bis := zeit + 300,
                   normal_alarm_zaehler := 0\<rparr>
            else s\<lparr>aktor := summer_stoppen (aktor s), kritischer_alarm_aktiv := False\<rparr>)"
  using assms by (simp add: kritischer_alarm_logik_def Let_def NORMAL_ALARM_SPERRE_SEK_def)

lemma kritisch_ruhe:
  assumes "\<not> ist_co2_kritisch m s" "\<not> kritischer_alarm_aktiv s"
  shows "kritischer_alarm_logik zeit m s = s"
  using assms by (simp add: kritischer_alarm_logik_def)

lemma normal_gesperrt:
  assumes "kritischer_alarm_aktiv s"
  shows "normaler_alarm_logik zeit m s = s"
  using assms by (simp add: normaler_alarm_logik_def)


lemma normal_feuert:
  assumes "\<not> kritischer_alarm_aktiv s" "soll_normal_alarm m s"
    "2 \<le> normal_alarm_zaehler s + 1" "normal_alarm_sperre_bis s < zeit"
  shows "normaler_alarm_logik zeit m s =
           s\<lparr>aktor := servo_winken 3 45 135 400 (summer_kurz_piepen 300 None False (aktor s)),
             bildschirm := backlight_einschalten (bildschirm s),
             normal_alarm_sperre_bis := zeit + 300,
             normal_alarm_zaehler := 0\<rparr>"
  using assms by (simp add: normaler_alarm_logik_def Let_def konst_defs)

lemma normal_ruhe:
  assumes "\<not> kritischer_alarm_aktiv s" "\<not> soll_normal_alarm m s"
  shows "normaler_alarm_logik zeit m s =
           s\<lparr>normal_alarm_zaehler := min (normal_alarm_zaehler s) 0,
             normal_alarm_sperre_bis := min (normal_alarm_sperre_bis s) 0\<rparr>"
  using assms by (simp add: normaler_alarm_logik_def Let_def min_def)

lemma flags_rahmen [simp]:
  "ist_co2_kritisch m (s\<lparr>letzte_sensorlesung_zeit := z, bildschirm := b\<rparr>) = ist_co2_kritisch m s"
  "soll_normal_alarm m (s\<lparr>letzte_sensorlesung_zeit := z, bildschirm := b\<rparr>) = soll_normal_alarm m s"
  by (simp_all add: flag_defs)

section \<open>Invalid readings\<close>

text \<open>
  Claim C5. A tick whose reading carries the sentinel temperature -99.9 or the sentinel
  humidity -1 is skipped: the strike counter, the cooldown and the critical latch keep
  their values, the actuators, the display and the broker link are not touched (no PWM
  write, no display command, nothing published). The tick only stores its time in
  \<^verbatim>\<open>letzte_sensorlesung_zeit\<close>.
\<close>

theorem ungueltige_messung_uebersprungen:
  assumes "ungueltig m"
  shows "(let s' = sensoren_lesen_verarbeiten_senden zeit m f s
          in normal_alarm_zaehler s' = normal_alarm_zaehler s
             \<and> normal_alarm_sperre_bis s' = normal_alarm_sperre_bis s
             \<and> kritischer_alarm_aktiv s' = kritischer_alarm_aktiv s
             \<and> aktor s' = aktor s
             \<and> bildschirm s' = bildschirm s
             \<and> mqtt s' = mqtt s
             \<and> s' = s\<lparr>letzte_sensorlesung_zeit := zeit\<rparr>)"
  using assms by (simp add: sensoren_lesen_verarbeiten_senden_def)

theorem ungueltige_messung_uebersprungen_witness:
  "ungueltig \<lparr>temp = - (999 / 10), feuchte = 50, co2 = 3000, voc = 100\<rparr>
   \<and> ungueltig \<lparr>temp = 35, feuchte = - 1, co2 = 3000, voc = 100\<rparr>
   \<and> sensoren_lesen_verarbeiten_senden 10
         \<lparr>temp = - (999 / 10), feuchte = 50, co2 = 3000, voc = 100\<rparr> None verbundener_zustand
       = verbundener_zustand\<lparr>letzte_sensorlesung_zeit := 10\<rparr>
   \<and> mqtt_gesendet (mqtt (sensoren_lesen_verarbeiten_senden 10
         \<lparr>temp = 35, feuchte = - 1, co2 = 3000, voc = 100\<rparr> None verbundener_zustand)) = []"
  using ungueltige_messung_uebersprungen
          [of "\<lparr>temp = - (999 / 10), feuchte = 50, co2 = 3000, voc = 100\<rparr>" 10 None verbundener_zustand]
        ungueltige_messung_uebersprungen
          [of "\<lparr>temp = 35, feuchte = - 1, co2 = 3000, voc = 100\<rparr>" 10 None verbundener_zustand]
  by (simp add: ungueltig_def Let_def verbundener_zustand_def anfangszustand_def)

section \<open>The critical tier\<close>

lemma kritischer_tick:
  assumes gueltig: "\<not> ungueltig m"
    and kritisch: "ist_co2_kritisch m s"
    and summer: "summer_pwm_objekt (aktor s) = Some p" "\<not> pwm_defekt p"
  shows "aktor (sensoren_lesen_verarbeiten_senden zeit m f s) =
           (aktor s)\<lparr>summer_pwm_objekt :=
                        Some (p\<lparr>pwm_freq := summer_aktuelle_frequenz (aktor s), pwm_duty := 512\<rparr>),
                     summer_protokoll := summer_protokoll (aktor s)
                        @ [Freq (summer_aktuelle_frequenz (aktor s)), Duty 512],
                     summer_ist_dauerhaft_an := True\<rparr>"
    and "kritischer_alarm_aktiv (sensoren_lesen_verarbeiten_senden zeit m f s)"
    and "\<not> kritischer_alarm_aktiv s \<Longrightarrow>
           normal_alarm_zaehler (sensoren_lesen_verarbeiten_senden zeit m f s) = 0
           \<and> normal_alarm_sperre_bis (sensoren_lesen_verarbeiten_senden zeit m f s) = 0
           \<and> bildschirm (sensoren_lesen_verarbeiten_senden zeit m f s)
               = backlight_einschalten
                   (display_aktualisieren (temp m) (feuchte m) (co2 m) (voc m) (bildschirm s))"
  using kritisch summer
  by (simp_all add: tick_gueltig [OF gueltig] kritisch_an normal_gesperrt summer_starten_erzwungen)

lemma backlight_einschalten_aktiv [simp]: "backlight_aktiv (backlight_einschalten b)"
  by (simp add: backlight_einschalten_def Let_def)




text \<open>
  Claim C1, as the code has it. On a tick with a valid reading whose CO2 value is at or
  below the critical threshold while the critical alarm is active (buzzer initialised
  and working), the buzzer is stopped and the critical latch cleared; no beep, no wave
  and no display wake happens on that tick. If a normal threshold is still exceeded, the
  critical tier sets the cooldown to now + 300 and the strike counter to 0; the normal
  tier of the same tick then counts the exceedance, so the counter is 1 when the tick
  ends.
\<close>

theorem kritisch_ende_zaehler_eins:
  assumes "\<not> ungueltig m"
    and "\<not> ist_co2_kritisch m s"
    and "kritischer_alarm_aktiv s"
    and "summer_pwm_objekt (aktor s) = Some p"
    and "\<not> pwm_defekt p"
  shows "(let s' = sensoren_lesen_verarbeiten_senden zeit m f s
          in \<not> kritischer_alarm_aktiv s'
             \<and> aktor s'
                 = (aktor s)\<lparr>summer_pwm_objekt := Some (p\<lparr>pwm_duty := 0\<rparr>),
                            summer_protokoll := summer_protokoll (aktor s) @ [Duty 0],
                            summer_ist_dauerhaft_an := False\<rparr>
             \<and> bildschirm s'
                 = display_aktualisieren (temp m) (feuchte m) (co2 m) (voc m) (bildschirm s)
             \<and> (soll_normal_alarm m s \<longrightarrow>
                  normal_alarm_zaehler (kritischer_alarm_logik zeit m s) = 0
                  \<and> normal_alarm_sperre_bis (kritischer_alarm_logik zeit m s) = zeit + 300
                  \<and> normal_alarm_sperre_bis s' = zeit + 300
                  \<and> normal_alarm_zaehler s' = 1))"
  using assms
  by (simp add: tick_gueltig kritisch_aus normaler_alarm_logik_def Let_def flag_defs konst_defs
        summer_stoppen_bereit)

theorem kritisch_ende_zaehler_eins_witness:
  "\<not> ungueltig messung_erhoeht
   \<and> \<not> ist_co2_kritisch messung_erhoeht alarm_zustand
   \<and> kritischer_alarm_aktiv alarm_zustand
   \<and> soll_normal_alarm messung_erhoeht alarm_zustand
   \<and> \<not> kritischer_alarm_aktiv
         (sensoren_lesen_verarbeiten_senden 1000 messung_erhoeht None alarm_zustand)
   \<and> summer_protokoll
       (aktor (sensoren_lesen_verarbeiten_senden 1000 messung_erhoeht None alarm_zustand))
       = [Duty 0]
   \<and> servo_protokoll
       (aktor (sensoren_lesen_verarbeiten_senden 1000 messung_erhoeht None alarm_zustand)) = []
   \<and> normal_alarm_sperre_bis
       (sensoren_lesen_verarbeiten_senden 1000 messung_erhoeht None alarm_zustand) = 1300
   \<and> normal_alarm_zaehler
       (sensoren_lesen_verarbeiten_senden 1000 messung_erhoeht None alarm_zustand) = 1"
  using kritisch_ende_zaehler_eins
          [where m = messung_erhoeht and s = alarm_zustand and zeit = 1000 and f = None
             and p = "\<lparr>pwm_freq = 1000, pwm_duty = 512, pwm_defekt = False\<rparr>"]
  by (simp add: Let_def ungueltig_def flag_defs messung_erhoeht_def
        alarm_zustand_def anfangszustand_def)

theorem kritisch_ende_zaehler_counterexample:
  "\<not> ungueltig messung_erhoeht
   \<and> co2 messung_erhoeht \<le> aktuelle_co2_kritisch_schwelle alarm_zustand
   \<and> kritischer_alarm_aktiv alarm_zustand
   \<and> co2 messung_erhoeht > aktuelle_co2_schwelle alarm_zustand
   \<and> normal_alarm_zaehler
       (sensoren_lesen_verarbeiten_senden 1000 messung_erhoeht None alarm_zustand) \<noteq> 0"
  by (simp add: sensoren_lesen_verarbeiten_senden_def kritischer_alarm_logik_def
        normaler_alarm_logik_def Let_def ungueltig_def flag_defs konst_defs
        messung_erhoeht_def alarm_zustand_def anfangszustand_def summer_stoppen_def
        display_aktualisieren_def mqtt_ist_verbunden_def)

section \<open>Mute\<close>

lemma stumm_schalten_an:
  assumes "summer_pwm_objekt a = Some p" "\<not> pwm_defekt p"
  shows "stumm_schalten True a =
           a\<lparr>ist_stummgeschaltet := True,
             summer_pwm_objekt := Some (p\<lparr>pwm_duty := 0\<rparr>),
             summer_protokoll := summer_protokoll a @ [Duty 0],
             summer_ist_dauerhaft_an := False\<rparr>"
  using assms by (simp add: stumm_schalten_def Let_def summer_stoppen_def SUMMER_DUTY_AUS_def)

lemma feuernder_tick:
  assumes gueltig: "\<not> ungueltig m"
    and "\<not> ist_co2_kritisch m s" "\<not> kritischer_alarm_aktiv s" "soll_normal_alarm m s"
    and "1 \<le> normal_alarm_zaehler s" "normal_alarm_sperre_bis s < zeit"
  shows "aktor (sensoren_lesen_verarbeiten_senden zeit m f s)
           = servo_winken 3 45 135 400 (summer_kurz_piepen 300 None False (aktor s))"
    and "bildschirm (sensoren_lesen_verarbeiten_senden zeit m f s)
           = backlight_einschalten
               (display_aktualisieren (temp m) (feuchte m) (co2 m) (voc m) (bildschirm s))"
    and "normal_alarm_sperre_bis (sensoren_lesen_verarbeiten_senden zeit m f s) = zeit + 300"
    and "normal_alarm_zaehler (sensoren_lesen_verarbeiten_senden zeit m f s) = 0"
    and "\<not> kritischer_alarm_aktiv (sensoren_lesen_verarbeiten_senden zeit m f s)"
  using assms(2-)
  by (simp_all add: tick_gueltig [OF gueltig] kritisch_ruhe normal_feuert)

text \<open>
  Claim C4. When the device is muted, a tick on which the normal-tier alarm fires (valid
  reading, no critical alarm, a normal threshold exceeded for at least the second time in
  a row, cooldown over; servo initialised and working) still waves the servo, wakes the
  display, re-arms the cooldown and resets the strike counter, but writes nothing to the
  buzzer: \<^verbatim>\<open>summer_kurz_piepen\<close> without \<^verbatim>\<open>erzwingen\<close> returns the state it got when
  muted. Setting mute to true writes duty 0 to a working buzzer at once and clears its
  continuous-on flag.
\<close>

theorem stumm_unterdrueckt_nur_piep:
  assumes "\<not> ungueltig m"
    and "\<not> ist_co2_kritisch m s"
    and "\<not> kritischer_alarm_aktiv s"
    and "soll_normal_alarm m s"
    and "1 \<le> normal_alarm_zaehler s"
    and "normal_alarm_sperre_bis s < zeit"
    and "ist_stummgeschaltet (aktor s)"
    and "servo_pwm_objekt (aktor s) = Some q"
    and "\<not> pwm_defekt q"
  shows "(let s' = sensoren_lesen_verarbeiten_senden zeit m f s
          in aktor s' = (aktor s)\<lparr>servo_pwm_objekt := Some (q\<lparr>pwm_duty := 77\<rparr>),
                                  servo_protokoll := servo_protokoll (aktor s) @ wink_befehle\<rparr>
             \<and> summer_protokoll (aktor s') = summer_protokoll (aktor s)
             \<and> summer_pwm_objekt (aktor s') = summer_pwm_objekt (aktor s)
             \<and> normal_alarm_sperre_bis s' = zeit + 300
             \<and> normal_alarm_zaehler s' = 0
             \<and> bildschirm s'
                 = backlight_einschalten
                     (display_aktualisieren (temp m) (feuchte m) (co2 m) (voc m) (bildschirm s))
             \<and> summer_kurz_piepen dauer frequenz False (aktor s) = aktor s
             \<and> ist_stummgeschaltet (stumm_schalten True a)
             \<and> (summer_pwm_objekt a = Some p \<and> \<not> pwm_defekt p \<longrightarrow>
                  stumm_schalten True a =
                    a\<lparr>ist_stummgeschaltet := True,
                      summer_pwm_objekt := Some (p\<lparr>pwm_duty := 0\<rparr>),
                      summer_protokoll := summer_protokoll a @ [Duty 0],
                      summer_ist_dauerhaft_an := False\<rparr>))"
proof -
  have piep: "summer_kurz_piepen d fr False (aktor s) = aktor s" for d fr
    using assms(7) by (rule summer_kurz_piepen_stumm)
  have stumm: "ist_stummgeschaltet (stumm_schalten True a)"
    by (simp add: stumm_schalten_def Let_def summer_stoppen_def split: option.splits)
  from feuernder_tick [OF assms(1-6), where f = f] piep stumm
       servo_winken_bereit [OF assms(8,9)] stumm_schalten_an [of a p]
  show ?thesis by (simp add: Let_def)
qed

theorem stumm_unterdrueckt_nur_piep_witness:
  "\<not> ungueltig messung_warm
   \<and> soll_normal_alarm messung_warm (stummer_zustand\<lparr>normal_alarm_zaehler := 1\<rparr>)
   \<and> ist_stummgeschaltet (aktor (stummer_zustand\<lparr>normal_alarm_zaehler := 1\<rparr>))
   \<and> servo_protokoll (aktor (sensoren_lesen_verarbeiten_senden 50 messung_warm None
        (stummer_zustand\<lparr>normal_alarm_zaehler := 1\<rparr>))) = wink_befehle
   \<and> summer_protokoll (aktor (sensoren_lesen_verarbeiten_senden 50 messung_warm None
        (stummer_zustand\<lparr>normal_alarm_zaehler := 1\<rparr>))) = []
   \<and> normal_alarm_sperre_bis (sensoren_lesen_verarbeiten_senden 50 messung_warm None
        (stummer_zustand\<lparr>normal_alarm_zaehler := 1\<rparr>)) = 350
   \<and> normal_alarm_zaehler (sensoren_lesen_verarbeiten_senden 50 messung_warm None
        (stummer_zustand\<lparr>normal_alarm_zaehler := 1\<rparr>)) = 0
   \<and> summer_protokoll (stumm_schalten True (aktor alarm_zustand)) = [Duty 0]
   \<and> \<not> summer_ist_dauerhaft_an (stumm_schalten True (aktor alarm_zustand))"
  using stumm_unterdrueckt_nur_piep
          [where m = messung_warm and s = "stummer_zustand\<lparr>normal_alarm_zaehler := 1\<rparr>"
             and zeit = 50 and f = None
             and q = "\<lparr>pwm_freq = 50, pwm_duty = 77, pwm_defekt = False\<rparr>"
             and a = "aktor alarm_zustand"
             and p = "\<lparr>pwm_freq = 1000, pwm_duty = 512, pwm_defekt = False\<rparr>"]
  by (simp add: Let_def ungueltig_def flag_defs gl_groesser_def messung_warm_def
        stummer_zustand_def alarm_zustand_def anfangszustand_def)

section \<open>Remote commands and the critical latch\<close>

lemma topics_verschieden [simp]: "EMPFANGS_TOPIC \<noteq> MQTT_SCHWELLE_TOPIC"
  by (simp add: EMPFANGS_TOPIC_def MQTT_SCHWELLE_TOPIC_def)

lemma befehl_mute_an:
  assumes "d ''command'' = Some (JString ''MUTE'')" "d ''status'' = Some (JString ''ON'')"
  shows "mqtt_befehl_empfangen (Some EMPFANGS_TOPIC) (Some (JDict d)) s
           = s\<lparr>aktor := stumm_schalten True (aktor s), kritischer_alarm_aktiv := False\<rparr>"
  using assms by (simp add: mqtt_befehl_empfangen_def Let_def)

lemma befehl_buzzer_aus:
  assumes "d ''command'' = Some (JString ''BUZZER'')" "d ''status'' = Some (JString ''OFF'')"
  shows "mqtt_befehl_empfangen (Some EMPFANGS_TOPIC) (Some (JDict d)) s
           = s\<lparr>aktor := summer_stoppen (aktor s), kritischer_alarm_aktiv := False\<rparr>"
  using assms by (simp add: mqtt_befehl_empfangen_def Let_def)

lemma flags_rahmen_aktor [simp]:
  "ist_co2_kritisch m (s\<lparr>aktor := a, kritischer_alarm_aktiv := k\<rparr>) = ist_co2_kritisch m s"
  by (simp add: flag_defs)

text \<open>
  Claim C9. The device-control command MUTE with status ON, and the command BUZZER with
  status OFF, set the critical latch to false and stop the buzzer (initialised and
  working), MUTE also setting the mute flag; no reading is looked at, and the thresholds
  are those of before. On the next tick with a valid reading whose CO2 value is critical
  the critical tier is entered anew: the latch is set, counter and cooldown are 0, the
  buzzer is forced on and the display woken.
\<close>

theorem fernbefehl_loescht_kritisch:
  assumes "d ''command'' = Some (JString ''MUTE'') \<and> d ''status'' = Some (JString ''ON'')
           \<or> d ''command'' = Some (JString ''BUZZER'') \<and> d ''status'' = Some (JString ''OFF'')"
    and "summer_pwm_objekt (aktor s) = Some p"
    and "\<not> pwm_defekt p"
  shows "(let s' = mqtt_befehl_empfangen (Some EMPFANGS_TOPIC) (Some (JDict d)) s;
              s'' = sensoren_lesen_verarbeiten_senden zeit m f s'
          in \<not> kritischer_alarm_aktiv s'
             \<and> \<not> summer_ist_dauerhaft_an (aktor s')
             \<and> summer_pwm_objekt (aktor s') = Some (p\<lparr>pwm_duty := 0\<rparr>)
             \<and> summer_protokoll (aktor s') = summer_protokoll (aktor s) @ [Duty 0]
             \<and> ist_stummgeschaltet (aktor s')
                 = (d ''command'' = Some (JString ''MUTE'') \<or> ist_stummgeschaltet (aktor s))
             \<and> ist_co2_kritisch m s' = ist_co2_kritisch m s
             \<and> (\<not> ungueltig m \<and> ist_co2_kritisch m s \<longrightarrow>
                  kritischer_alarm_aktiv s''
                  \<and> normal_alarm_zaehler s'' = 0
                  \<and> normal_alarm_sperre_bis s'' = 0
                  \<and> summer_ist_dauerhaft_an (aktor s'')
                  \<and> summer_protokoll (aktor s'')
                      = summer_protokoll (aktor s')
                        @ [Freq (summer_aktuelle_frequenz (aktor s)), Duty 512]
                  \<and> backlight_aktiv (bildschirm s'')))"
proof -
  define s' where "s' = mqtt_befehl_empfangen (Some EMPFANGS_TOPIC) (Some (JDict d)) s"
  have form: "s' = s\<lparr>aktor := (aktor s)\<lparr>ist_stummgeschaltet :=
                          (d ''command'' = Some (JString ''MUTE'') \<or> ist_stummgeschaltet (aktor s)),
                        summer_pwm_objekt := Some (p\<lparr>pwm_duty := 0\<rparr>),
                        summer_protokoll := summer_protokoll (aktor s) @ [Duty 0],
                        summer_ist_dauerhaft_an := False\<rparr>,
                  kritischer_alarm_aktiv := False\<rparr>"
    using assms(1)
  proof
    assume "d ''command'' = Some (JString ''MUTE'') \<and> d ''status'' = Some (JString ''ON'')"
    then show ?thesis
      unfolding s'_def using assms(2,3)
      by (simp add: befehl_mute_an stumm_schalten_an)
  next
    assume "d ''command'' = Some (JString ''BUZZER'') \<and> d ''status'' = Some (JString ''OFF'')"
    then show ?thesis
      unfolding s'_def using assms(2,3)
      by (simp add: befehl_buzzer_aus summer_stoppen_bereit)
  qed
  have summer': "summer_pwm_objekt (aktor s') = Some (p\<lparr>pwm_duty := 0\<rparr>)"
    and ok': "\<not> pwm_defekt (p\<lparr>pwm_duty := 0\<rparr>)"
    and latch': "\<not> kritischer_alarm_aktiv s'"
    and freq': "summer_aktuelle_frequenz (aktor s') = summer_aktuelle_frequenz (aktor s)"
    and krit': "ist_co2_kritisch m s' = ist_co2_kritisch m s"
    using assms(3) by (simp_all add: form flag_defs)
  have naechster: "kritischer_alarm_aktiv (sensoren_lesen_verarbeiten_senden zeit m f s')
      \<and> normal_alarm_zaehler (sensoren_lesen_verarbeiten_senden zeit m f s') = 0
      \<and> normal_alarm_sperre_bis (sensoren_lesen_verarbeiten_senden zeit m f s') = 0
      \<and> summer_ist_dauerhaft_an (aktor (sensoren_lesen_verarbeiten_senden zeit m f s'))
      \<and> summer_protokoll (aktor (sensoren_lesen_verarbeiten_senden zeit m f s'))
          = summer_protokoll (aktor s') @ [Freq (summer_aktuelle_frequenz (aktor s)), Duty 512]
      \<and> backlight_aktiv (bildschirm (sensoren_lesen_verarbeiten_senden zeit m f s'))"
    if "\<not> ungueltig m" "ist_co2_kritisch m s"
  proof -
    from that(2) krit' have k: "ist_co2_kritisch m s'" by simp
    from kritischer_tick [OF that(1) k summer' ok', where zeit = zeit and f = f] latch' freq'
    show ?thesis by simp
  qed
  from naechster krit' show ?thesis
    unfolding Let_def s'_def [symmetric] by (simp add: form)
qed

theorem fernbefehl_loescht_kritisch_witness:
  "kritischer_alarm_aktiv alarm_zustand
   \<and> ist_co2_kritisch messung_kritisch alarm_zustand
   \<and> \<not> kritischer_alarm_aktiv
         (mqtt_befehl_empfangen (Some EMPFANGS_TOPIC)
            (Some (JDict [''command'' \<mapsto> JString ''MUTE'', ''status'' \<mapsto> JString ''ON'']))
            alarm_zustand)
   \<and> ist_stummgeschaltet (aktor
         (mqtt_befehl_empfangen (Some EMPFANGS_TOPIC)
            (Some (JDict [''command'' \<mapsto> JString ''MUTE'', ''status'' \<mapsto> JString ''ON'']))
            alarm_zustand))
   \<and> \<not> kritischer_alarm_aktiv
         (mqtt_befehl_empfangen (Some EMPFANGS_TOPIC)
            (Some (JDict [''command'' \<mapsto> JString ''BUZZER'', ''status'' \<mapsto> JString ''OFF'']))
            alarm_zustand)
   \<and> kritischer_alarm_aktiv
         (sensoren_lesen_verarbeiten_senden 7 messung_kritisch None
            (mqtt_befehl_empfangen (Some EMPFANGS_TOPIC)
               (Some (JDict [''command'' \<mapsto> JString ''MUTE'', ''status'' \<mapsto> JString ''ON'']))
               alarm_zustand))
   \<and> summer_protokoll (aktor
         (sensoren_lesen_verarbeiten_senden 7 messung_kritisch None
            (mqtt_befehl_empfangen (Some EMPFANGS_TOPIC)
               (Some (JDict [''command'' \<mapsto> JString ''MUTE'', ''status'' \<mapsto> JString ''ON'']))
               alarm_zustand)))
       = [Duty 0, Freq 1000, Duty 512]"
  using fernbefehl_loescht_kritisch
          [where d = "[''command'' \<mapsto> JString ''MUTE'', ''status'' \<mapsto> JString ''ON'']"
             and s = alarm_zustand and m = messung_kritisch and zeit = 7 and f = None
             and p = "\<lparr>pwm_freq = 1000, pwm_duty = 512, pwm_defekt = False\<rparr>"]
        fernbefehl_loescht_kritisch
          [where d = "[''command'' \<mapsto> JString ''BUZZER'', ''status'' \<mapsto> JString ''OFF'']"
             and s = alarm_zustand and m = messung_kritisch and zeit = 7 and f = None
             and p = "\<lparr>pwm_freq = 1000, pwm_duty = 512, pwm_defekt = False\<rparr>"]
  by (simp add: Let_def ungueltig_def ist_co2_kritisch_def messung_kritisch_def
        alarm_zustand_def anfangszustand_def)

section \<open>Runs of ticks\<close>

lemma schwellen_tick [simp]:
  "aktuelle_temp_schwelle (sensoren_lesen_verarbeiten_senden zeit m f s) = aktuelle_temp_schwelle s"
  "aktuelle_feuchte_schwelle (sensoren_lesen_verarbeiten_senden zeit m f s) = aktuelle_feuchte_schwelle s"
  "aktuelle_co2_schwelle (sensoren_lesen_verarbeiten_senden zeit m f s) = aktuelle_co2_schwelle s"
  "aktuelle_voc_schwelle (sensoren_lesen_verarbeiten_senden zeit m f s) = aktuelle_voc_schwelle s"
  "aktuelle_co2_kritisch_schwelle (sensoren_lesen_verarbeiten_senden zeit m f s)
     = aktuelle_co2_kritisch_schwelle s"
  by (simp_all add: sensoren_lesen_verarbeiten_senden_def kritischer_alarm_logik_def
        normaler_alarm_logik_def Let_def)

lemma flags_tick [simp]:
  "ist_co2_kritisch m' (sensoren_lesen_verarbeiten_senden zeit m f s) = ist_co2_kritisch m' s"
  "soll_normal_alarm m' (sensoren_lesen_verarbeiten_senden zeit m f s) = soll_normal_alarm m' s"
  "unter_allen_schwellen m' (sensoren_lesen_verarbeiten_senden zeit m f s)
     = unter_allen_schwellen m' s"
  by (simp_all add: flag_defs unter_allen_schwellen_def)

lemma gl_kleiner_asym: "gl_kleiner (Endlich x) b \<Longrightarrow> \<not> gl_kleiner b (Endlich x)"
  by (cases b) auto

lemma unter_schwellen_kein_alarm:
  assumes "unter_allen_schwellen m s"
  shows "\<not> ist_co2_kritisch m s" and "\<not> soll_normal_alarm m s"
  using assms gl_kleiner_asym
  by (auto simp: unter_allen_schwellen_def flag_defs gl_groesser_def)

lemma display_aktualisieren_backlight [simp]:
  "backlight_aktiv (display_aktualisieren t h c v b) = backlight_aktiv b"
  by (simp add: display_aktualisieren_def)

lemma ruhiger_tick:
  assumes gueltig: "\<not> ungueltig m"
    and unter: "unter_allen_schwellen m s"
    and ruhe: "\<not> kritischer_alarm_aktiv s" "normal_alarm_zaehler s = 0"
      "normal_alarm_sperre_bis s = 0"
  shows "aktor (sensoren_lesen_verarbeiten_senden zeit m f s) = aktor s"
    and "\<not> kritischer_alarm_aktiv (sensoren_lesen_verarbeiten_senden zeit m f s)"
    and "normal_alarm_zaehler (sensoren_lesen_verarbeiten_senden zeit m f s) = 0"
    and "normal_alarm_sperre_bis (sensoren_lesen_verarbeiten_senden zeit m f s) = 0"
    and "backlight_aktiv (bildschirm (sensoren_lesen_verarbeiten_senden zeit m f s))
           = backlight_aktiv (bildschirm s)"
  using ruhe unter_schwellen_kein_alarm [OF unter]
  by (simp_all add: tick_gueltig [OF gueltig] kritisch_ruhe normal_ruhe)

lemma ruhige_folge:
  assumes "\<forall>(zeit, m, f) \<in> set folge. \<not> ungueltig m \<and> unter_allen_schwellen m s"
    and "\<not> kritischer_alarm_aktiv s" "normal_alarm_zaehler s = 0" "normal_alarm_sperre_bis s = 0"
  shows "aktor (ticks folge s) = aktor s \<and> \<not> kritischer_alarm_aktiv (ticks folge s)
         \<and> normal_alarm_zaehler (ticks folge s) = 0 \<and> normal_alarm_sperre_bis (ticks folge s) = 0
         \<and> backlight_aktiv (bildschirm (ticks folge s)) = backlight_aktiv (bildschirm s)"
  using assms
proof (induction folge arbitrary: s)
  case Nil
  then show ?case by simp
next
  case (Cons x folge)
  obtain zeit m f where x: "x = (zeit, m, f)" by (cases x)
  let ?s1 = "sensoren_lesen_verarbeiten_senden zeit m f s"
  from Cons.prems(1) x have g: "\<not> ungueltig m" and u: "unter_allen_schwellen m s"
    by simp_all
  note schritt = ruhiger_tick [OF g u Cons.prems(2-4), where zeit = zeit and f = f]
  from Cons.prems(1) have rest: "\<forall>(zeit, m, f) \<in> set folge. \<not> ungueltig m \<and> unter_allen_schwellen m ?s1"
    by auto
  from Cons.IH [OF rest schritt(2,3,4)] schritt(1,5) show ?case
    by (simp add: x)
qed

text \<open>
  Claim C7. Whatever the thresholds are: from a state with no critical alarm, strike
  counter 0 and cooldown 0, after any number of ticks of a sequence of valid readings that
  are all strictly below their thresholds (CO2 below both of its thresholds), the state
  of the actuators is the one before the sequence (no PWM write to the buzzer, none to the
  servo), the critical alarm is not active, the strike counter and the cooldown are 0, and
  the backlight is as it was.
\<close>

theorem unter_schwellen_nie_alarm:
  assumes "\<forall>(zeit, m, f) \<in> set folge. \<not> ungueltig m \<and> unter_allen_schwellen m s"
    and "\<not> kritischer_alarm_aktiv s"
    and "normal_alarm_zaehler s = 0"
    and "normal_alarm_sperre_bis s = 0"
  shows "(let s' = ticks (take n folge) s
          in aktor s' = aktor s
             \<and> summer_protokoll (aktor s') = summer_protokoll (aktor s)
             \<and> servo_protokoll (aktor s') = servo_protokoll (aktor s)
             \<and> \<not> kritischer_alarm_aktiv s'
             \<and> normal_alarm_zaehler s' = 0
             \<and> normal_alarm_sperre_bis s' = 0
             \<and> backlight_aktiv (bildschirm s') = backlight_aktiv (bildschirm s))"
proof -
  from assms(1) have "\<forall>(zeit, m, f) \<in> set (take n folge). \<not> ungueltig m \<and> unter_allen_schwellen m s"
    by (auto dest: in_set_takeD)
  from ruhige_folge [OF this assms(2-4)] show ?thesis
    by (simp add: Let_def)
qed

theorem unter_schwellen_nie_alarm_witness:
  "\<not> ungueltig messung_ruhig
   \<and> unter_allen_schwellen messung_ruhig verbundener_zustand
   \<and> aktor (ticks [(2, messung_ruhig, None), (4, messung_ruhig, Some OSError), (6, messung_ruhig, None)]
        verbundener_zustand) = aktor verbundener_zustand
   \<and> \<not> kritischer_alarm_aktiv
        (ticks [(2, messung_ruhig, None), (4, messung_ruhig, Some OSError), (6, messung_ruhig, None)]
           verbundener_zustand)
   \<and> normal_alarm_zaehler
        (ticks [(2, messung_ruhig, None), (4, messung_ruhig, Some OSError), (6, messung_ruhig, None)]
           verbundener_zustand) = 0"
  using unter_schwellen_nie_alarm
          [where folge = "[(2, messung_ruhig, None), (4, messung_ruhig, Some OSError),
                           (6, messung_ruhig, None)]"
             and s = verbundener_zustand and n = 3]
  by (simp add: Let_def ungueltig_def unter_allen_schwellen_def messung_ruhig_def
        verbundener_zustand_def anfangszustand_def)

section \<open>The normal tier: strikes and cooldown\<close>





section \<open>Failures of the broker link\<close>

text \<open>
  Claim C8, as the code has it. While the link is connected, a send or a poll that fails
  with \<^verbatim>\<open>OSError\<close> drops the connection (\<^verbatim>\<open>mqtt_ist_verbunden\<close> is false after it),
  and the send publishes nothing; a send or a poll that fails with any other exception
  leaves the module state, the connection flag included, as it was. A send returns true
  only when nothing was raised. A send while disconnected returns false and changes
  nothing. Neither function has an exceptional result: each handler ends the exception.
\<close>

theorem mqtt_fehler_nur_oserror_trennt:
  "(mqtt_verbunden q \<and> mqtt_client q \<noteq> None \<longrightarrow>
      \<not> fst (mqtt_senden (Some OSError) payload topic q)
      \<and> \<not> mqtt_ist_verbunden (snd (mqtt_senden (Some OSError) payload topic q))
      \<and> mqtt_gesendet (snd (mqtt_senden (Some OSError) payload topic q)) = mqtt_gesendet q
      \<and> \<not> mqtt_ist_verbunden (mqtt_nachrichten_pruefen (Some OSError) q)
      \<and> (e \<noteq> OSError \<longrightarrow>
            mqtt_senden (Some e) payload topic q = (False, q)
            \<and> mqtt_nachrichten_pruefen (Some e) q = q))
   \<and> (fst (mqtt_senden fehler payload topic q) \<longrightarrow> fehler = None)
   \<and> (\<not> mqtt_verbunden q \<or> mqtt_client q = None \<longrightarrow>
        mqtt_senden fehler payload topic q = (False, q))"
  by (cases e; cases fehler)
     (auto simp: mqtt_senden_def mqtt_nachrichten_pruefen_def mqtt_ist_verbunden_def
        split: ausnahme.splits)

theorem mqtt_fehler_nur_oserror_trennt_witness:
  "mqtt_verbunden (mqtt verbundener_zustand)
   \<and> mqtt_client (mqtt verbundener_zustand) \<noteq> None
   \<and> \<not> fst (mqtt_senden (Some OSError) (daten_paket messung_ruhig verbundener_zustand)
              SENDE_TOPIC (mqtt verbundener_zustand))
   \<and> \<not> mqtt_ist_verbunden
         (snd (mqtt_senden (Some OSError) (daten_paket messung_ruhig verbundener_zustand)
                 SENDE_TOPIC (mqtt verbundener_zustand)))
   \<and> \<not> mqtt_ist_verbunden (mqtt_nachrichten_pruefen (Some OSError) (mqtt verbundener_zustand))
   \<and> mqtt_senden (Some ValueError) (daten_paket messung_ruhig verbundener_zustand)
        SENDE_TOPIC (mqtt verbundener_zustand) = (False, mqtt verbundener_zustand)
   \<and> \<not> mqtt_verbunden (mqtt anfangszustand)
   \<and> mqtt_senden None (daten_paket messung_ruhig anfangszustand) SENDE_TOPIC
        (mqtt anfangszustand) = (False, mqtt anfangszustand)"
  using mqtt_fehler_nur_oserror_trennt
          [where q = "mqtt verbundener_zustand" and e = ValueError and fehler = None
             and payload = "daten_paket messung_ruhig verbundener_zustand"
             and topic = SENDE_TOPIC]
        mqtt_fehler_nur_oserror_trennt
          [where q = "mqtt anfangszustand" and e = ValueError and fehler = None
             and payload = "daten_paket messung_ruhig anfangszustand"
             and topic = SENDE_TOPIC]
  by (simp add: verbundener_zustand_def anfangszustand_def)

theorem mqtt_fehler_counterexample:
  "mqtt_ist_verbunden (mqtt verbundener_zustand)
   \<and> mqtt_client (mqtt verbundener_zustand) \<noteq> None
   \<and> \<not> fst (mqtt_senden (Some AndereAusnahme) (daten_paket messung_ruhig verbundener_zustand)
              SENDE_TOPIC (mqtt verbundener_zustand))
   \<and> mqtt_ist_verbunden
       (snd (mqtt_senden (Some AndereAusnahme) (daten_paket messung_ruhig verbundener_zustand)
               SENDE_TOPIC (mqtt verbundener_zustand)))
   \<and> mqtt_ist_verbunden
       (mqtt_nachrichten_pruefen (Some AndereAusnahme) (mqtt verbundener_zustand))"
  by (simp add: mqtt_senden_def mqtt_nachrichten_pruefen_def mqtt_ist_verbunden_def
        verbundener_zustand_def anfangszustand_def)

section \<open>Threshold updates\<close>

lemma schwelle_topic_dict:
  "mqtt_befehl_empfangen (Some MQTT_SCHWELLE_TOPIC) (Some daten) s
     = versuche [temp_schwelle_setzen daten, feuchte_schwelle_setzen daten,
                 co2_schwelle_setzen daten, voc_schwelle_setzen daten] s"
  by (simp add: mqtt_befehl_empfangen_def)

text \<open>When a stanza of the update raises, for a message that is a JSON object: the
  temperature and humidity stanzas never do, the CO2 and VOC stanzas exactly on plus
  infinity.\<close>

lemma als_zahl_unendlich: "als_zahl v = Some PlusUnendlich \<longleftrightarrow> v = JFloat PlusUnendlich"
  by (cases v) auto

lemma co2_stanze_ausnahme:
  "co2_schwelle_setzen (JDict d) s = Inl e
     \<longleftrightarrow> d ''schwelle_CO2'' = Some (JFloat PlusUnendlich) \<and> e = OverflowError"
proof (cases "d ''schwelle_CO2''")
  case None
  then show ?thesis by (simp add: co2_schwelle_setzen_def)
next
  case vorhanden: (Some v)
  show ?thesis
  proof (cases "als_zahl v")
    case None
    with vorhanden als_zahl_unendlich [of v] show ?thesis
      by (auto simp: co2_schwelle_setzen_def)
  next
    case zahl: (Some x)
    from zahl als_zahl_unendlich [of v] have "x = PlusUnendlich \<longleftrightarrow> v = JFloat PlusUnendlich"
      by auto
    with vorhanden zahl show ?thesis
      by (cases x) (auto simp: co2_schwelle_setzen_def gl_groesser_def)
  qed
qed

lemma voc_stanze_ausnahme:
  "voc_schwelle_setzen (JDict d) s = Inl e
     \<longleftrightarrow> d ''schwelle_VOC'' = Some (JFloat PlusUnendlich) \<and> e = OverflowError"
proof (cases "d ''schwelle_VOC''")
  case None
  then show ?thesis by (simp add: voc_schwelle_setzen_def)
next
  case vorhanden: (Some v)
  show ?thesis
  proof (cases "als_zahl v")
    case None
    with vorhanden als_zahl_unendlich [of v] show ?thesis
      by (auto simp: voc_schwelle_setzen_def)
  next
    case zahl: (Some x)
    from zahl als_zahl_unendlich [of v] have "x = PlusUnendlich \<longleftrightarrow> v = JFloat PlusUnendlich"
      by auto
    with vorhanden zahl show ?thesis
      by (cases x) (auto simp: voc_schwelle_setzen_def gl_groesser_gleich_def gl_kleiner_gleich_def)
  qed
qed

lemma temp_feuchte_stanzen_ohne_ausnahme:
  "temp_schwelle_setzen (JDict d) s \<noteq> Inl e"
  "feuchte_schwelle_setzen (JDict d) s \<noteq> Inl e"
  by (simp_all add: temp_schwelle_setzen_def feuchte_schwelle_setzen_def split: option.splits)

text \<open>
  Claim C6 fails on the code. The update \<^verbatim>\<open>{"schwelle_CO2": 1e999, "schwelle_VOC": 500}\<close>
  carries a CO2 value that passes the check \<^verbatim>\<open>neue_co2 > 0\<close> and on which
  \<^verbatim>\<open>int(neue_co2)\<close> raises \<^verbatim>\<open>OverflowError\<close>; the handler around the whole block
  ends the update, and the valid VOC threshold 500 is not taken: the threshold is still
  1000. With the infinite value under the temperature key, which is converted with
  \<^verbatim>\<open>float\<close>, the same VOC threshold is taken.
\<close>

theorem schwelle_unendlich_bricht_ab:
  "als_zahl (JInt 500) = Some (Endlich 500)
   \<and> gl_groesser_gleich (Endlich 500) (Endlich 0)
   \<and> aktuelle_voc_schwelle anfangszustand = 1000
   \<and> aktuelle_voc_schwelle
       (mqtt_befehl_empfangen (Some MQTT_SCHWELLE_TOPIC)
          (Some (JDict [''schwelle_CO2'' \<mapsto> JFloat PlusUnendlich, ''schwelle_VOC'' \<mapsto> JInt 500]))
          anfangszustand) = 1000
   \<and> aktuelle_co2_schwelle
       (mqtt_befehl_empfangen (Some MQTT_SCHWELLE_TOPIC)
          (Some (JDict [''schwelle_CO2'' \<mapsto> JFloat PlusUnendlich, ''schwelle_VOC'' \<mapsto> JInt 500]))
          anfangszustand) = 1500
   \<and> aktuelle_voc_schwelle
       (mqtt_befehl_empfangen (Some MQTT_SCHWELLE_TOPIC)
          (Some (JDict [''schwelle_temp'' \<mapsto> JFloat PlusUnendlich, ''schwelle_VOC'' \<mapsto> JInt 500]))
          anfangszustand) = 500"
  by (simp add: schwelle_topic_dict temp_schwelle_setzen_def feuchte_schwelle_setzen_def
        co2_schwelle_setzen_def voc_schwelle_setzen_def gl_groesser_def gl_groesser_gleich_def
        gl_kleiner_gleich_def anfangszustand_def)

lemma schwelle_beispiel_der_spezifikation:
  "mqtt_befehl_empfangen (Some MQTT_SCHWELLE_TOPIC)
     (Some (JDict [''schwelle_hum'' \<mapsto> JInt 150, ''schwelle_temp'' \<mapsto> JFloat (Endlich 28)]))
     anfangszustand
   = anfangszustand\<lparr>aktuelle_temp_schwelle := Endlich 28\<rparr>"
  by (simp add: schwelle_topic_dict temp_schwelle_setzen_def feuchte_schwelle_setzen_def
        co2_schwelle_setzen_def voc_schwelle_setzen_def gl_groesser_def gl_groesser_gleich_def
        gl_kleiner_gleich_def anfangszustand_def)

end
